theory Spec2Isabelle
  imports Complex_Main "HOL-Library.Multiset" "HOL-Library.Sublist"
begin

section \<open>Data model (shared/types/mosaic.types)\<close>

text \<open>
  A leaf is a key of the caller's type (\<open>string | number\<close> in the source, the type
  parameter \<open>'a\<close> here); a parent is the interface \<open>MosaicParent\<close> with its optional
  \<open>splitPercentage\<close>. The functions on trees only store and copy a split
  percentage, they never compute with it; it is kept as a real. The geometry computes
  with numbers, which are IEEE-754 doubles (see below). The empty layout
  \<open>null\<close> is \<open>None\<close> of \<open>'a MosaicNode option\<close>.
\<close>

datatype MosaicDirection = Row | Column

datatype MosaicBranch = First | Second

type_synonym MosaicPath = "MosaicBranch list"

datatype 'a MosaicNode =
    Leaf 'a
  | Parent (direction: MosaicDirection) (first: "'a MosaicNode") (second: "'a MosaicNode")
      (splitPercentage: "real option")

datatype MosaicDropTargetPosition = TOP | BOTTOM | LEFT | RIGHT

text \<open>
  \<open>MosaicUpdateSpec\<close>: either \<open>{ $set: node }\<close> or a patch whose four fields are each
  optional (\<open>splitPercentage?: { $set: number }\<close>, \<open>direction?: { $set: ... }\<close>,
  \<open>first?\<close>, \<open>second?\<close>).
\<close>

datatype 'a MosaicUpdateSpec =
    SetSpec "'a MosaicNode"
  | PatchSpec "real option" "MosaicDirection option"
      "'a MosaicUpdateSpec option" "'a MosaicUpdateSpec option"

record 'a MosaicUpdate =
  path :: MosaicPath
  spec :: "'a MosaicUpdateSpec"

text \<open>The three \<open>throw new Error(...)\<close> sites reachable from \<open>createRemoveUpdate\<close>.\<close>

datatype error =
    CannotRemoveRoot          \<comment> \<open>\<open>'Cannot remove root node'\<close>\<close>
  | NodeNotFound MosaicPath   \<comment> \<open>\<open>'Node at path ... not found'\<close>\<close>
  | ParentIsNotAParent        \<comment> \<open>\<open>'Parent is not a parent node'\<close>\<close>

section \<open>Tree primitives (shared/lib/mosaic-utilities)\<close>

fun isParent :: "'a MosaicNode option \<Rightarrow> bool" where
  "isParent None = False"
| "isParent (Some (Leaf k)) = False"
| "isParent (Some (Parent d a b p)) = True"

fun getLeaves :: "'a MosaicNode option \<Rightarrow> 'a list" where
  "getLeaves None = []"
| "getLeaves (Some (Parent d a b p)) = getLeaves (Some a) @ getLeaves (Some b)"
| "getLeaves (Some (Leaf k)) = [k]"

fun getNodeAtPath :: "'a MosaicNode \<Rightarrow> MosaicPath \<Rightarrow> 'a MosaicNode option" where
  "getNodeAtPath node [] = Some node"
| "getNodeAtPath (Leaf k) (branch # rest) = None"
| "getNodeAtPath (Parent d a b p) (branch # rest) =
     getNodeAtPath (case branch of First \<Rightarrow> a | Second \<Rightarrow> b) rest"

definition getAndAssertNodeAtPathExists ::
  "'a MosaicNode \<Rightarrow> MosaicPath \<Rightarrow> error + 'a MosaicNode" where
  "getAndAssertNodeAtPathExists node p =
     (case getNodeAtPath node p of None \<Rightarrow> Inl (NodeNotFound p) | Some result \<Rightarrow> Inr result)"

fun getOtherDirection :: "MosaicDirection \<Rightarrow> MosaicDirection" where
  "getOtherDirection d = (if d = Row then Column else Row)"

fun getOtherBranch :: "MosaicBranch \<Rightarrow> MosaicBranch" where
  "getOtherBranch b = (if b = First then Second else First)"

function createBalancedTreeFromLeaves ::
  "'a list \<Rightarrow> MosaicDirection \<Rightarrow> 'a MosaicNode option" where
  "createBalancedTreeFromLeaves leaves startDirection =
     (if length leaves = 0 then None
      else if length leaves = 1 then Some (Leaf (leaves ! 0))
      else
        (case createBalancedTreeFromLeaves (take (length leaves div 2) leaves)
                (getOtherDirection startDirection) of
           None \<Rightarrow>
             createBalancedTreeFromLeaves (drop (length leaves div 2) leaves)
               (getOtherDirection startDirection)
         | Some f \<Rightarrow>
             (case createBalancedTreeFromLeaves (drop (length leaves div 2) leaves)
                     (getOtherDirection startDirection) of
                None \<Rightarrow> Some f
              | Some s \<Rightarrow> Some (Parent startDirection f s (Some 50)))))"
  by pat_completeness auto
termination
  by (relation "measure (\<lambda>(leaves, d). length leaves)") (auto simp: neq_Nil_conv)

declare createBalancedTreeFromLeaves.simps [simp del]

fun countNodes :: "'a MosaicNode option \<Rightarrow> int" where
  "countNodes None = 0"
| "countNodes (Some (Parent d a b p)) = 1 + countNodes (Some a) + countNodes (Some b)"
| "countNodes (Some (Leaf k)) = 1"

section \<open>JavaScript numbers\<close>

text \<open>
  A JavaScript number is an IEEE-754 binary64 value: NaN, an infinity, or a finite
  value \<open>(-1)^s * m * 2^e\<close>, written \<open>Finite s m e\<close> (\<open>s\<close> true for the minus
  sign, so \<open>Finite True 0 0\<close> is \<open>-0\<close>). A result of an operation has
  \<open>2^52 \<le> m < 2^53\<close> with \<open>-1074 \<le> e \<le> 971\<close>, or \<open>m < 2^52\<close> with
  \<open>e = -1074\<close>, or is a zero \<open>Finite s 0 0\<close>. \<open>round_double s n d E\<close> rounds the
  exact value \<open>(n / d) * 2^E\<close> to the nearest such value, ties to the even
  mantissa, and to an infinity beyond the largest finite double. \<open>+\<close>, \<open>-\<close>,
  \<open>*\<close> and \<open>/\<close> round the exact result; \<open>num n\<close> is the integer literal \<open>n\<close>
  and \<open>decimal n d\<close> the decimal literal of value \<open>n / d\<close>; \<open>fle\<close> and
  \<open>fless\<close> are \<open><=\<close> and \<open><\<close> (false on NaN, \<open>-0\<close> equal to \<open>+0\<close>);
  \<open>Math_min\<close> and \<open>Math_max\<close> are \<open>Math.min\<close> and \<open>Math.max\<close> (NaN if an
  argument is NaN, \<open>-0\<close> below \<open>+0\<close>).
\<close>

datatype number = Finite bool nat int | Infinity bool | NaN

fun bitlength :: "nat \<Rightarrow> nat" where
  "bitlength n = (if n = 0 then 0 else Suc (bitlength (n div 2)))"

declare bitlength.simps [simp del]

definition floor_log2 :: "nat \<Rightarrow> nat \<Rightarrow> int" where
  "floor_log2 n d =
     (let k = int (bitlength n) - int (bitlength d) in
      if (if 0 \<le> k then d * 2 ^ nat k \<le> n else d \<le> n * 2 ^ nat (- k)) then k else k - 1)"

definition round_half_even :: "nat \<Rightarrow> nat \<Rightarrow> nat" where
  "round_half_even p q =
     (let f = p div q; r = p mod q in
      if 2 * r < q then f else if q < 2 * r then f + 1 else if even f then f else f + 1)"

definition round_double :: "bool \<Rightarrow> nat \<Rightarrow> nat \<Rightarrow> int \<Rightarrow> number" where
  "round_double s n d E =
     (if n = 0 then Finite s 0 0
      else
        (let e = max (E + floor_log2 n d - 52) (- 1074);
             m = round_half_even (n * 2 ^ nat (E - e)) (d * 2 ^ nat (e - E));
             m' = (if m = 2 ^ 53 then 2 ^ 52 else m);
             e' = (if m = 2 ^ 53 then e + 1 else e)
         in if m = 0 then Finite s 0 0
            else if 971 < e' then Infinity s else Finite s m' e'))"

definition num :: "nat \<Rightarrow> number" where
  "num n = round_double False n 1 0"

definition decimal :: "nat \<Rightarrow> nat \<Rightarrow> number" where
  "decimal n d = round_double False n d 0"

fun fneg :: "number \<Rightarrow> number" where
  "fneg NaN = NaN"
| "fneg (Infinity s) = Infinity (\<not> s)"
| "fneg (Finite s m e) = Finite (\<not> s) m e"

fun fadd :: "number \<Rightarrow> number \<Rightarrow> number" where
  "fadd NaN y = NaN"
| "fadd x NaN = NaN"
| "fadd (Infinity s) (Infinity s') = (if s = s' then Infinity s else NaN)"
| "fadd (Infinity s) (Finite s' m' e') = Infinity s"
| "fadd (Finite s m e) (Infinity s') = Infinity s'"
| "fadd (Finite s m e) (Finite s' m' e') =
     (let E = min e e';
          a = int m * 2 ^ nat (e - E);
          b = int m' * 2 ^ nat (e' - E);
          v = (if s then - a else a) + (if s' then - b else b)
      in if v = 0 then Finite (s \<and> s') 0 0
         else round_double (v < 0) (nat \<bar>v\<bar>) 1 E)"

definition fsub :: "number \<Rightarrow> number \<Rightarrow> number" where
  "fsub x y = fadd x (fneg y)"

fun fmul :: "number \<Rightarrow> number \<Rightarrow> number" where
  "fmul NaN y = NaN"
| "fmul x NaN = NaN"
| "fmul (Infinity s) (Infinity s') = Infinity (s \<noteq> s')"
| "fmul (Infinity s) (Finite s' m' e') = (if m' = 0 then NaN else Infinity (s \<noteq> s'))"
| "fmul (Finite s m e) (Infinity s') = (if m = 0 then NaN else Infinity (s \<noteq> s'))"
| "fmul (Finite s m e) (Finite s' m' e') = round_double (s \<noteq> s') (m * m') 1 (e + e')"

fun fdiv :: "number \<Rightarrow> number \<Rightarrow> number" where
  "fdiv NaN y = NaN"
| "fdiv x NaN = NaN"
| "fdiv (Infinity s) (Infinity s') = NaN"
| "fdiv (Infinity s) (Finite s' m' e') = Infinity (s \<noteq> s')"
| "fdiv (Finite s m e) (Infinity s') = Finite (s \<noteq> s') 0 0"
| "fdiv (Finite s m e) (Finite s' m' e') =
     (if m' = 0 then (if m = 0 then NaN else Infinity (s \<noteq> s'))
      else round_double (s \<noteq> s') m m' (e - e'))"

definition pow2 :: "int \<Rightarrow> rat" where
  "pow2 e = (if 0 \<le> e then 2 ^ nat e else 1 / 2 ^ nat (- e))"

definition valof :: "bool \<Rightarrow> nat \<Rightarrow> int \<Rightarrow> rat" where
  "valof s m e = (if s then - (of_nat m * pow2 e) else of_nat m * pow2 e)"

fun fle :: "number \<Rightarrow> number \<Rightarrow> bool" where
  "fle NaN y = False"
| "fle x NaN = False"
| "fle (Infinity s) (Infinity s') = (s \<or> \<not> s')"
| "fle (Infinity s) (Finite s' m' e') = s"
| "fle (Finite s m e) (Infinity s') = (\<not> s')"
| "fle (Finite s m e) (Finite s' m' e') = (valof s m e \<le> valof s' m' e')"

fun fless :: "number \<Rightarrow> number \<Rightarrow> bool" where
  "fless NaN y = False"
| "fless x NaN = False"
| "fless (Infinity s) (Infinity s') = (s \<and> \<not> s')"
| "fless (Infinity s) (Finite s' m' e') = s"
| "fless (Finite s m e) (Infinity s') = (\<not> s')"
| "fless (Finite s m e) (Finite s' m' e') = (valof s m e < valof s' m' e')"

fun isNegativeZero :: "number \<Rightarrow> bool" where
  "isNegativeZero (Finite s m e) = (s \<and> m = 0)"
| "isNegativeZero x = False"

fun isPositiveZero :: "number \<Rightarrow> bool" where
  "isPositiveZero (Finite s m e) = (\<not> s \<and> m = 0)"
| "isPositiveZero x = False"

definition Math_min :: "number \<Rightarrow> number \<Rightarrow> number" where
  "Math_min x y =
     (if x = NaN \<or> y = NaN then NaN
      else if fless x y then x else if fless y x then y
      else if isNegativeZero x then x else y)"

definition Math_max :: "number \<Rightarrow> number \<Rightarrow> number" where
  "Math_max x y =
     (if x = NaN \<or> y = NaN then NaN
      else if fless y x then x else if fless x y then y
      else if isPositiveZero x then x else y)"

section \<open>Geometry (shared/lib/bounding-box)\<close>

record BoundingBox =
  top_bb :: number
  right_bb :: number
  bottom_bb :: number
  left_bb :: number

definition createBoundingBox :: "number \<Rightarrow> number \<Rightarrow> number \<Rightarrow> number \<Rightarrow> BoundingBox" where
  "createBoundingBox t r b l = \<lparr>top_bb = t, right_bb = r, bottom_bb = b, left_bb = l\<rparr>"

definition getWidth :: "BoundingBox \<Rightarrow> number" where
  "getWidth box = fsub (right_bb box) (left_bb box)"

definition getHeight :: "BoundingBox \<Rightarrow> number" where
  "getHeight box = fsub (bottom_bb box) (top_bb box)"

definition split :: "BoundingBox \<Rightarrow> number \<Rightarrow> MosaicDirection \<Rightarrow> BoundingBox \<times> BoundingBox" where
  "split box percentage dir =
     (let percent = Math_max (num 0) (Math_min (num 100) percentage) in
      if dir = Row then
        (let splitPoint = fadd (left_bb box) (fdiv (fmul (getWidth box) percent) (num 100)) in
         (createBoundingBox (top_bb box) splitPoint (bottom_bb box) (left_bb box),
          createBoundingBox (top_bb box) (right_bb box) (bottom_bb box) splitPoint))
      else
        (let splitPoint = fadd (top_bb box) (fdiv (fmul (getHeight box) percent) (num 100)) in
         (createBoundingBox (top_bb box) (right_bb box) splitPoint (left_bb box),
          createBoundingBox splitPoint (right_bb box) (bottom_bb box) (left_bb box))))"


section \<open>Update algebra (shared/lib/mosaic-updates)\<close>

text \<open>
  \<open>applyUpdateAtPath\<close> mutates an immer draft in place; here it returns the node the
  draft has become. A patch at the terminal node sets \<open>splitPercentage\<close> and
  \<open>direction\<close> and recurses into \<open>first\<close>/\<open>second\<close> with the empty path; a \<open>$set\<close>
  arriving with the empty path does nothing (the source returns at once).
\<close>

fun applyUpdateAtPath ::
  "'a MosaicNode \<Rightarrow> MosaicPath \<Rightarrow> 'a MosaicUpdateSpec \<Rightarrow> 'a MosaicNode" where
  "applyUpdateAtPath node [] (SetSpec n) = node"
| "applyUpdateAtPath (Leaf k) [] (PatchSpec sp dr f s) = Leaf k"
| "applyUpdateAtPath (Parent d a b p) [] (PatchSpec sp dr f s) =
     Parent (case dr of None \<Rightarrow> d | Some d' \<Rightarrow> d')
       (case f of None \<Rightarrow> a | Some fs \<Rightarrow> applyUpdateAtPath a [] fs)
       (case s of None \<Rightarrow> b | Some ss \<Rightarrow> applyUpdateAtPath b [] ss)
       (case sp of None \<Rightarrow> p | Some v \<Rightarrow> Some v)"
| "applyUpdateAtPath (Leaf k) (branch # rest) sp = Leaf k"
| "applyUpdateAtPath (Parent d a b p) (branch # rest) (SetSpec n) =
     (if length rest = 0 then
        (case branch of First \<Rightarrow> Parent d n b p | Second \<Rightarrow> Parent d a n p)
      else
        (case branch of
           First \<Rightarrow> Parent d (applyUpdateAtPath a rest (SetSpec n)) b p
         | Second \<Rightarrow> Parent d a (applyUpdateAtPath b rest (SetSpec n)) p))"
| "applyUpdateAtPath (Parent d a b p) (branch # rest) (PatchSpec sp dr f s) =
     (case branch of
        First \<Rightarrow> Parent d (applyUpdateAtPath a rest (PatchSpec sp dr f s)) b p
      | Second \<Rightarrow> Parent d a (applyUpdateAtPath b rest (PatchSpec sp dr f s)) p)"

text \<open>The body of the \<open>for\<close> loop of \<open>updateTree\<close>: one update applied to \<open>current\<close>.\<close>

definition updateTree_step :: "'a MosaicNode \<Rightarrow> 'a MosaicUpdate \<Rightarrow> 'a MosaicNode" where
  "updateTree_step current update =
     (case spec update of
        SetSpec n \<Rightarrow>
          if length (path update) = 0 then n
          else applyUpdateAtPath current (path update) (spec update)
      | PatchSpec sp dr f s \<Rightarrow> applyUpdateAtPath current (path update) (spec update))"

definition updateTree ::
  "'a MosaicNode option \<Rightarrow> 'a MosaicUpdate list \<Rightarrow> 'a MosaicNode option" where
  "updateTree rootNode updates =
     (case rootNode of None \<Rightarrow> None | Some r \<Rightarrow> Some (foldl updateTree_step r updates))"

definition createRemoveUpdate ::
  "'a MosaicNode option \<Rightarrow> MosaicPath \<Rightarrow> error + 'a MosaicUpdate" where
  "createRemoveUpdate rootNode p =
     (case rootNode of
        None \<Rightarrow> Inl CannotRemoveRoot
      | Some r \<Rightarrow>
          if length p = 0 then Inl CannotRemoveRoot
          else
            (let parentPath = butlast p;
                 branch = last p;
                 siblingBranch = getOtherBranch branch
             in case getAndAssertNodeAtPathExists r parentPath of
                  Inl e \<Rightarrow> Inl e
                | Inr (Leaf k) \<Rightarrow> Inl ParentIsNotAParent
                | Inr (Parent d a b pc) \<Rightarrow>
                    Inr \<lparr>path = parentPath,
                         spec = SetSpec (case siblingBranch of First \<Rightarrow> a | Second \<Rightarrow> b)\<rparr>))"

section \<open>Drag relocation\<close>

text \<open>
  JavaScript array indexing \<open>xs[i]\<close> (\<open>undefined\<close> out of range is \<open>None\<close>) and
  \<open>Array.prototype.every\<close> with its \<open>(element, index)\<close> callback.
\<close>

definition at_index :: "'a list \<Rightarrow> nat \<Rightarrow> 'a option" where
  "at_index xs i = (if i < length xs then Some (xs ! i) else None)"

definition every :: "('a \<Rightarrow> nat \<Rightarrow> bool) \<Rightarrow> 'a list \<Rightarrow> bool" where
  "every f xs = list_all (\<lambda>i. f (xs ! i) i) [0..<length xs]"

definition createDragToUpdates ::
  "'a MosaicNode \<Rightarrow> MosaicPath \<Rightarrow> MosaicPath \<Rightarrow> MosaicDropTargetPosition
     \<Rightarrow> error + 'a MosaicUpdate list" where
  "createDragToUpdates rootNode sourcePath destinationPath position =
     (case getNodeAtPath rootNode sourcePath of
        None \<Rightarrow> Inr []
      | Some sourceNode \<Rightarrow>
     (case getNodeAtPath rootNode destinationPath of
        None \<Rightarrow> Inr []
      | Some destinationNode \<Rightarrow>
     if sourcePath = destinationPath then Inr []
     else
       (let dir = (if position = LEFT \<or> position = RIGHT then Row else Column);
            first = (if position = LEFT \<or> position = TOP then sourceNode else destinationNode);
            second = (if position = LEFT \<or> position = TOP then destinationNode else sourceNode);
            newSplitNode = Parent dir first second (Some 50);
            isDestinationParentOfSource =
              (length sourcePath > length destinationPath \<and>
               every (\<lambda>branch index. at_index sourcePath index = Some branch) destinationPath)
        in
        if isDestinationParentOfSource then
          (let relativeSourcePath = drop (length destinationPath) sourcePath in
           case createRemoveUpdate (Some destinationNode) relativeSourcePath of
             Inl e \<Rightarrow> Inl e
           | Inr removeUpdate \<Rightarrow>
               (case updateTree (Some destinationNode) [removeUpdate] of
                  None \<Rightarrow> Inr []
                | Some updatedDestination \<Rightarrow>
                    Inr [\<lparr>path = destinationPath,
                          spec = SetSpec
                            (Parent dir
                               (if position = LEFT \<or> position = TOP
                                then sourceNode else updatedDestination)
                               (if position = LEFT \<or> position = TOP
                                then updatedDestination else sourceNode)
                               (Some 50))\<rparr>]))
        else
          (case (if length sourcePath > 0
                 then (case createRemoveUpdate (Some rootNode) sourcePath of
                         Inl e \<Rightarrow> Inl e | Inr removeUpdate \<Rightarrow> Inr [removeUpdate])
                 else Inr []) of
             Inl e \<Rightarrow> Inl e
           | Inr updates \<Rightarrow>
               (let sourceParentPath = butlast sourcePath;
                    destParentPath = butlast destinationPath;
                    areSiblings =
                      (length sourceParentPath = length destParentPath \<and>
                       every (\<lambda>branch index. at_index destParentPath index = Some branch)
                         sourceParentPath);
                    adjustedDestinationPath =
                      (if areSiblings then sourceParentPath
                       else
                         (let isSourceParentInDestPath =
                                (length sourceParentPath > 0 \<and>
                                 length sourceParentPath < length destinationPath \<and>
                                 every (\<lambda>branch index. at_index destinationPath index = Some branch)
                                   sourceParentPath)
                          in
                          if isSourceParentInDestPath \<and>
                             at_index sourcePath (length sourceParentPath)
                               = at_index destinationPath (length sourceParentPath)
                          then sourceParentPath @ drop (length sourceParentPath + 1) destinationPath
                          else destinationPath))
                in Inr (updates @ [\<lparr>path = adjustedDestinationPath,
                                      spec = SetSpec newSplitNode\<rparr>]))))))"

section \<open>Notions used to state the properties\<close>

text \<open>
  \<open>setAt t p n\<close> is one iteration of the loop of \<open>updateTree\<close> on the update
  \<open>{ path: p, spec: { $set: n } }\<close>.
\<close>

abbreviation setAt :: "'a MosaicNode \<Rightarrow> MosaicPath \<Rightarrow> 'a MosaicNode \<Rightarrow> 'a MosaicNode" where
  "setAt t p n \<equiv> updateTree_step t \<lparr>path = p, spec = SetSpec n\<rparr>"

text \<open>
  The joint node a drop asks for: source \<open>first\<close> for LEFT/TOP and \<open>second\<close> for
  RIGHT/BOTTOM, direction \<open>row\<close> for LEFT/RIGHT and \<open>column\<close> for TOP/BOTTOM,
  split percentage 50.
\<close>

definition jointNode ::
  "MosaicDropTargetPosition \<Rightarrow> 'a MosaicNode \<Rightarrow> 'a MosaicNode \<Rightarrow> 'a MosaicNode" where
  "jointNode side src dst =
     Parent (case side of LEFT \<Rightarrow> Row | RIGHT \<Rightarrow> Row | TOP \<Rightarrow> Column | BOTTOM \<Rightarrow> Column)
       (case side of LEFT \<Rightarrow> src | TOP \<Rightarrow> src | RIGHT \<Rightarrow> dst | BOTTOM \<Rightarrow> dst)
       (case side of LEFT \<Rightarrow> dst | TOP \<Rightarrow> dst | RIGHT \<Rightarrow> src | BOTTOM \<Rightarrow> src)
       (Some 50)"


section \<open>Facts about path lookup and \<open>$set\<close> updates\<close>

lemma setAt_Nil: "setAt t [] n = n"
  by (simp add: updateTree_step_def)

lemma setAt_Leaf: "setAt (Leaf k) (b # rest) n = Leaf k"
  by (simp add: updateTree_step_def)

lemma setAt_Parent:
  "setAt (Parent d a b pc) (br # rest) n =
     (case br of First \<Rightarrow> Parent d (setAt a rest n) b pc
               | Second \<Rightarrow> Parent d a (setAt b rest n) pc)"
  by (cases rest; cases br) (simp_all add: updateTree_step_def)

lemma getNodeAtPath_setAt_same:
  "getNodeAtPath t p = Some x \<Longrightarrow> getNodeAtPath (setAt t p n) p = Some n"
proof (induction p arbitrary: t)
  case Nil
  then show ?case by (simp add: setAt_Nil)
next
  case (Cons br rest)
  then show ?case
    by (cases t; cases br) (simp_all add: setAt_Parent)
qed

lemma leaves_setAt:
  "getNodeAtPath t p = Some x \<Longrightarrow>
     mset (getLeaves (Some (setAt t p n))) + mset (getLeaves (Some x))
       = mset (getLeaves (Some t)) + mset (getLeaves (Some n))"
proof (induction p arbitrary: t)
  case Nil
  then show ?case by (simp add: setAt_Nil)
next
  case (Cons br rest)
  show ?case
  proof (cases t)
    case (Leaf k)
    with Cons.prems show ?thesis by simp
  next
    case (Parent d a b pc)
    show ?thesis
    proof (cases br)
      case First
      with Parent Cons.prems have "getNodeAtPath a rest = Some x" by simp
      from Cons.IH [OF this] show ?thesis
        using Parent First by (simp add: setAt_Parent)
    next
      case Second
      with Parent Cons.prems have "getNodeAtPath b rest = Some x" by simp
      from Cons.IH [OF this] show ?thesis
        using Parent Second by (simp add: setAt_Parent)
    qed
  qed
qed

lemma getNodeAtPath_setAt_other:
  "\<not> prefix p q \<Longrightarrow> \<not> prefix q p \<Longrightarrow> getNodeAtPath (setAt t p n) q = getNodeAtPath t q"
proof (induction p arbitrary: t q)
  case Nil
  then show ?case by simp
next
  case (Cons br rest)
  then obtain c qs where q: "q = c # qs" by (cases q) auto
  show ?case
  proof (cases t)
    case (Leaf k)
    then show ?thesis by (simp add: setAt_Leaf)
  next
    case (Parent d a b pc)
    show ?thesis
    proof (cases "br = c")
      case True
      with Cons.prems q have "\<not> prefix rest qs" "\<not> prefix qs rest" by auto
      then show ?thesis
        using Parent True q Cons.IH by (cases c) (simp_all add: setAt_Parent)
    next
      case False
      then show ?thesis
        using Parent q by (cases c; cases br) (simp_all add: setAt_Parent)
    qed
  qed
qed

lemma getNodeAtPath_append:
  "getNodeAtPath t (p @ q) =
     (case getNodeAtPath t p of None \<Rightarrow> None | Some x \<Rightarrow> getNodeAtPath x q)"
proof (induction p arbitrary: t)
  case Nil
  then show ?case by simp
next
  case (Cons br rest)
  then show ?case by (cases t) simp_all
qed

lemma every_prefix:
  "every (\<lambda>branch index. at_index ys index = Some branch) xs \<longleftrightarrow> prefix xs ys"
proof
  assume "every (\<lambda>branch index. at_index ys index = Some branch) xs"
  then have nth: "\<forall>i<length xs. i < length ys \<and> ys ! i = xs ! i"
    by (auto simp: every_def at_index_def list_all_iff split: if_splits)
  have len: "length xs \<le> length ys"
  proof (cases xs)
    case Nil
    then show ?thesis by simp
  next
    case (Cons a list)
    with nth have "length xs - 1 < length ys" by auto
    with Cons show ?thesis by simp
  qed
  have "take (length xs) ys = xs"
    using nth len by (intro nth_equalityI) auto
  then show "prefix xs ys"
    by (metis take_is_prefix)
next
  assume "prefix xs ys"
  then obtain zs where "ys = xs @ zs" by (auto simp: prefix_def)
  then show "every (\<lambda>branch index. at_index ys index = Some branch) xs"
    by (auto simp: every_def at_index_def list_all_iff nth_append)
qed

lemma getNodeAtPath_parent:
  assumes "getNodeAtPath t p = Some x" "p \<noteq> []"
  shows "\<exists>d a b pc. getNodeAtPath t (butlast p) = Some (Parent d a b pc)
           \<and> x = (case last p of First \<Rightarrow> a | Second \<Rightarrow> b)"
proof -
  from assms(2) have p: "p = butlast p @ [last p]" by simp
  from assms(1) have "getNodeAtPath t (butlast p @ [last p]) = Some x"
    using p by simp
  then obtain y where y: "getNodeAtPath t (butlast p) = Some y"
    and x: "getNodeAtPath y [last p] = Some x"
    by (auto simp: getNodeAtPath_append split: option.splits)
  from x show ?thesis
    using y by (cases y) auto
qed

lemma createRemoveUpdate_Parent:
  assumes "getNodeAtPath t (butlast p) = Some (Parent d a b pc)" "p \<noteq> []"
  shows "createRemoveUpdate (Some t) p =
     Inr \<lparr>path = butlast p, spec = SetSpec (case last p of First \<Rightarrow> b | Second \<Rightarrow> a)\<rparr>"
  using assms
  by (cases "last p") (simp_all add: createRemoveUpdate_def getAndAssertNodeAtPathExists_def)

lemma updateTree_Some: "updateTree (Some t) us = Some (foldl updateTree_step t us)"
  by (simp add: updateTree_def)

lemma updateTree_None: "updateTree None us = None"
  by (simp add: updateTree_def)

lemma applyUpdateAtPath_through_leaf:
  "getNodeAtPath t p' = Some (Leaf k) \<Longrightarrow> applyUpdateAtPath t (p' @ b # rest) sp = t"
proof (induction p' arbitrary: t)
  case Nil
  then show ?case by simp
next
  case (Cons c ps)
  then show ?case
    by (cases t; cases c; cases sp) simp_all
qed

lemma updateTree_step_through_leaf:
  assumes "path u = p' @ b # rest" "getNodeAtPath t p' = Some (Leaf k)"
  shows "updateTree_step t u = t"
  using applyUpdateAtPath_through_leaf [OF assms(2), of b rest "spec u"] assms(1)
  by (cases "spec u") (simp_all add: updateTree_step_def)

section \<open>Facts about numbers\<close>

lemmas double_eval = num_def decimal_def round_double_def floor_log2_def bitlength.simps
  round_half_even_def Let_def fsub_def

lemma num_0: "num 0 = Finite False 0 0"
  by (simp add: double_eval)


lemma fle_NaN_right [simp]: "\<not> fle x NaN"
  by (cases x) simp_all

lemma fless_NaN_right [simp]: "\<not> fless x NaN"
  by (cases x) simp_all











text \<open>
  Literals and single operations evaluated: the operands of the examples below, and
  a few known doubles (\<open>1 / 3\<close>, a tie rounded to the even mantissa both ways, the
  overflow to \<open>Infinity\<close> and the underflow to zero).
\<close>

lemma lit_1: "num 1 = Finite False 4503599627370496 (- 52)"
  by (simp add: double_eval)

lemma lit_10: "num 10 = Finite False 5629499534213120 (- 49)"
  by (simp add: double_eval)



lemma lit_70: "num 70 = Finite False 4925812092436480 (- 46)"
  by (simp add: double_eval)













lemma underflow_to_zero: "fmul (Finite False 1 (- 1074)) (Finite False 1 (- 1074)) = Finite False 0 0"
  apply (simp add: Let_def)
  apply (simp add: double_eval)
  done

lemma overflow_to_infinity: "fmul (Finite False 9007199254740991 971) (num 2) = Infinity False"
  unfolding num_def
  apply (simp add: double_eval)
  done

lemma tie_to_even_down: "fadd (num 1) (Finite False 1 (- 53)) = num 1"
  unfolding lit_1
  apply (simp add: Let_def)
  apply (simp add: double_eval)
  done

lemma tie_to_even_up: "fadd (Finite False 4503599627370497 (- 52)) (Finite False 1 (- 53))
   = Finite False 4503599627370498 (- 52)"
  apply (simp add: Let_def)
  apply (simp add: double_eval)
  done

lemma zero_minus_ten: "fsub (num 0) (num 10) = Finite True 5629499534213120 (- 49)"
  unfolding num_0 lit_10
  apply (simp add: fsub_def Let_def)
  apply (simp add: double_eval)
  done

lemma one_third: "fdiv (num 1) (num 3) = Finite False 6004799503160661 (- 54)"
  unfolding lit_1
  apply (simp add: double_eval)
  done

text \<open>
  The boundary of the box from 1 to 2 at 14 percent is \<open>1.1400000000000001\<close>, not
  \<open>57 / 50\<close>.
\<close>

lemma boundary_rounded:
  "fadd (num 1) (fdiv (fmul (fsub (num 2) (num 1)) (num 14)) (num 100))
     = Finite False 5134103575202366 (- 52)"
  by (simp add: double_eval)


section \<open>The branches of \<open>createDragToUpdates\<close>\<close>

lemma jointNode_if:
  "Parent (if pos = LEFT \<or> pos = RIGHT then Row else Column)
     (if pos = LEFT \<or> pos = TOP then S else D)
     (if pos = LEFT \<or> pos = TOP then D else S) (Some 50) = jointNode pos S D"
  by (cases pos) (simp_all add: jointNode_def)

lemma longer_prefix_strict:
  "(length xs < length ys \<and> prefix xs ys) \<longleftrightarrow> strict_prefix xs ys"
  by (auto simp: strict_prefix_def prefix_def)

lemma same_length_prefix:
  "(length xs = length ys \<and> prefix xs ys) \<longleftrightarrow> xs = ys"
  by (auto simp: prefix_def)

lemma nonempty_shorter_prefix:
  "(0 < length xs \<and> length xs < length ys \<and> prefix xs ys)
     \<longleftrightarrow> (xs \<noteq> [] \<and> strict_prefix xs ys)"
  by (auto simp: strict_prefix_def prefix_def)

lemma drag_dest_ancestor:
  assumes S: "getNodeAtPath t src = Some S" and D: "getNodeAtPath t dst = Some D"
    and sp: "strict_prefix dst src"
  shows "\<exists>d a b pc.
           getNodeAtPath D (butlast (drop (length dst) src)) = Some (Parent d a b pc)
         \<and> S = (case last src of First \<Rightarrow> a | Second \<Rightarrow> b)
         \<and> createDragToUpdates t src dst pos =
             Inr [\<lparr>path = dst,
                   spec = SetSpec (jointNode pos S
                     (setAt D (butlast (drop (length dst) src))
                        (case last src of First \<Rightarrow> b | Second \<Rightarrow> a)))\<rparr>]"
proof -
  let ?rel = "drop (length dst) src"
  from sp obtain zs where src: "src = dst @ zs" and zs: "zs \<noteq> []"
    by (auto simp: strict_prefix_def prefix_def)
  then have rel: "?rel = zs" by simp
  have last: "last src = last zs" using src zs by simp
  from S src D have "getNodeAtPath D zs = Some S"
    by (simp add: getNodeAtPath_append)
  from getNodeAtPath_parent [OF this zs]
  obtain d a b pc where par: "getNodeAtPath D (butlast zs) = Some (Parent d a b pc)"
    and Seq: "S = (case last zs of First \<Rightarrow> a | Second \<Rightarrow> b)"
    by blast
  have rm: "createRemoveUpdate (Some D) zs =
     Inr \<lparr>path = butlast zs, spec = SetSpec (case last zs of First \<Rightarrow> b | Second \<Rightarrow> a)\<rparr>"
    by (rule createRemoveUpdate_Parent [OF par zs])
  have neq: "src \<noteq> dst" using src zs by simp
  have isanc: "length dst < length src \<and> prefix dst src"
    using sp by (simp add: longer_prefix_strict)
  have "createDragToUpdates t src dst pos =
             Inr [\<lparr>path = dst,
                   spec = SetSpec (jointNode pos S
                     (setAt D (butlast zs) (case last zs of First \<Rightarrow> b | Second \<Rightarrow> a)))\<rparr>]"
    unfolding createDragToUpdates_def
    using S D neq isanc rm
    by (simp add: every_prefix Let_def rel updateTree_Some jointNode_if del: foldl_Cons)
       (simp add: jointNode_if)
  with par Seq show ?thesis
    unfolding rel last by blast
qed

lemma drag_standard:
  assumes S: "getNodeAtPath t src = Some S" and D: "getNodeAtPath t dst = Some D"
    and neq: "src \<noteq> dst" and nsp: "\<not> strict_prefix dst src" and ne: "src \<noteq> []"
  shows "\<exists>d a b pc.
           getNodeAtPath t (butlast src) = Some (Parent d a b pc)
         \<and> S = (case last src of First \<Rightarrow> a | Second \<Rightarrow> b)
         \<and> createDragToUpdates t src dst pos =
             Inr [\<lparr>path = butlast src,
                   spec = SetSpec (case last src of First \<Rightarrow> b | Second \<Rightarrow> a)\<rparr>,
                  \<lparr>path =
                     (if butlast src = butlast dst then butlast src
                      else if butlast src \<noteq> [] \<and> strict_prefix (butlast src) dst
                              \<and> at_index src (length (butlast src))
                                  = at_index dst (length (butlast src))
                      then butlast src @ drop (length (butlast src) + 1) dst
                      else dst),
                   spec = SetSpec (jointNode pos S D)\<rparr>]"
proof -
  from getNodeAtPath_parent [OF S ne]
  obtain d a b pc where par: "getNodeAtPath t (butlast src) = Some (Parent d a b pc)"
    and Seq: "S = (case last src of First \<Rightarrow> a | Second \<Rightarrow> b)"
    by blast
  have rm: "createRemoveUpdate (Some t) src =
     Inr \<lparr>path = butlast src, spec = SetSpec (case last src of First \<Rightarrow> b | Second \<Rightarrow> a)\<rparr>"
    by (rule createRemoveUpdate_Parent [OF par ne])
  have notanc: "\<not> (length dst < length src \<and> prefix dst src)"
    using nsp by (simp add: longer_prefix_strict)
  have sib: "(length (butlast src) = length (butlast dst) \<and> prefix (butlast src) (butlast dst))
               \<longleftrightarrow> butlast src = butlast dst"
    by (rule same_length_prefix)
  have inpath: "(0 < length (butlast src) \<and> length (butlast src) < length dst
                   \<and> prefix (butlast src) dst)
               \<longleftrightarrow> (butlast src \<noteq> [] \<and> strict_prefix (butlast src) dst)"
    by (rule nonempty_shorter_prefix)
  have "createDragToUpdates t src dst pos =
             Inr [\<lparr>path = butlast src,
                   spec = SetSpec (case last src of First \<Rightarrow> b | Second \<Rightarrow> a)\<rparr>,
                  \<lparr>path =
                     (if butlast src = butlast dst then butlast src
                      else if butlast src \<noteq> [] \<and> strict_prefix (butlast src) dst
                              \<and> at_index src (length (butlast src))
                                  = at_index dst (length (butlast src))
                      then butlast src @ drop (length (butlast src) + 1) dst
                      else dst),
                   spec = SetSpec (jointNode pos S D)\<rparr>]"
    unfolding createDragToUpdates_def
    using S D neq notanc rm ne
    by (simp only: every_prefix Let_def sib inpath jointNode_if option.case if_False if_True
          sum.case length_greater_0_conv append_Nil append_Cons simp_thms)
       (simp only: longer_prefix_strict conj_assoc)
  with par Seq show ?thesis by blast
qed

lemma at_index_append_length: "at_index (xs @ y # ys) (length xs) = Some y"
  by (simp add: at_index_def)

lemma leaves_jointNode:
  "mset (getLeaves (Some (jointNode pos S D)))
     = mset (getLeaves (Some S)) + mset (getLeaves (Some D))"
  by (cases pos) (simp_all add: jointNode_def)

lemma leaves_after_removal:
  assumes par: "getNodeAtPath t pp = Some (Parent d a b pc)"
  shows "mset (getLeaves (Some (setAt t pp (case br of First \<Rightarrow> b | Second \<Rightarrow> a))))
           + mset (getLeaves (Some (case br of First \<Rightarrow> a | Second \<Rightarrow> b)))
         = mset (getLeaves (Some t))"
  using leaves_setAt [OF par, of "case br of First \<Rightarrow> b | Second \<Rightarrow> a"]
  by (cases br) simp_all

section \<open>Update algebra: properties\<close>

text \<open>
  C4, as the code has it: on a non-null tree a single root-level \<open>$set N\<close> returns
  \<open>N\<close>, whatever the tree was; on the null tree \<open>updateTree\<close> returns null at
  once (\<open>if (root === null) return null\<close>), so the update is not applied.
\<close>

theorem updateTree_root_set:
  "updateTree (Some t) [\<lparr>path = [], spec = SetSpec N\<rparr>] = Some N
   \<and> updateTree None [\<lparr>path = [], spec = SetSpec N\<rparr>] = None"
  by (simp add: updateTree_def updateTree_step_def)

text \<open>
  C4 as stated (the null tree included) fails: the null tree stays null.
\<close>

theorem updateTree_root_set_null_counterexample:
  "updateTree None [\<lparr>path = [], spec = SetSpec (Leaf ''a'')\<rparr>] \<noteq> Some (Leaf ''a'')"
  by (simp add: updateTree_def)

text \<open>
  C5: \<open>updateTree\<close> returns for every tree and every batch (null for the null tree,
  a node otherwise; no statement of the source throws), and an update whose path
  runs into a Leaf before it is exhausted (\<open>p'\<close> resolves to a Leaf and branches
  remain) leaves the current tree as it is, the rest of the batch being applied to it.
\<close>

theorem updateTree_total_noop:
  "updateTree None us = None
   \<and> (\<exists>t'. updateTree (Some t) us = Some t')
   \<and> (updateTree (Some t) us1 = Some t1 \<and> path u = p' @ b # rest
        \<and> getNodeAtPath t1 p' = Some (Leaf k)
       \<longrightarrow> updateTree (Some t1) [u] = Some t1
           \<and> updateTree (Some t) (us1 @ u # us2) = updateTree (Some t1) us2)"
proof (intro conjI impI)
  show "updateTree None us = None" by (rule updateTree_None)
  show "\<exists>t'. updateTree (Some t) us = Some t'" by (simp add: updateTree_Some)
next
  assume h: "updateTree (Some t) us1 = Some t1 \<and> path u = p' @ b # rest
        \<and> getNodeAtPath t1 p' = Some (Leaf k)"
  then have pu: "path u = p' @ b # rest" and leaf: "getNodeAtPath t1 p' = Some (Leaf k)"
    by simp_all
  have step: "updateTree_step t1 u = t1"
    by (rule updateTree_step_through_leaf [OF pu leaf])
  then show "updateTree (Some t1) [u] = Some t1"
    by (simp add: updateTree_Some)
  from h have "foldl updateTree_step t us1 = t1" by (simp add: updateTree_Some)
  with step show "updateTree (Some t) (us1 @ u # us2) = updateTree (Some t1) us2"
    by (simp add: updateTree_Some)
qed

theorem updateTree_total_noop_witness:
  "(updateTree (Some (Parent Row (Leaf ''a'') (Leaf ''b'') (Some 50))) [] =
      Some (Parent Row (Leaf ''a'') (Leaf ''b'') (Some 50))
    \<and> path \<lparr>path = [First, First], spec = SetSpec (Leaf ''c'')\<rparr> = [First] @ First # []
    \<and> getNodeAtPath (Parent Row (Leaf ''a'') (Leaf ''b'') (Some 50)) [First] = Some (Leaf ''a''))
   \<and> updateTree (Some (Parent Row (Leaf ''a'') (Leaf ''b'') (Some 50)))
        ([] @ \<lparr>path = [First, First], spec = SetSpec (Leaf ''c'')\<rparr>
            # [\<lparr>path = [Second], spec = SetSpec (Leaf ''c'')\<rparr>])
       = Some (Parent Row (Leaf ''a'') (Leaf ''c'') (Some 50))"
  using updateTree_total_noop
    [of "[]" "Parent Row (Leaf ''a'') (Leaf ''b'') (Some 50)" "[]"
        "Parent Row (Leaf ''a'') (Leaf ''b'') (Some 50)"
        "\<lparr>path = [First, First], spec = SetSpec (Leaf ''c'')\<rparr>" "[First]" First "[]" "''a''"
        "[\<lparr>path = [Second], spec = SetSpec (Leaf ''c'')\<rparr>]"]
  by (simp add: updateTree_def updateTree_step_def)

text \<open>
  C6: \<open>createRemoveUpdate\<close> rejects the empty path (\<open>'Cannot remove root node'\<close>);
  when the parent path resolves to a Split it returns (parent path, \<open>$set\<close> sibling),
  and applying it puts the sibling at the parent's position, leaves every node off
  that position alone, and removes exactly the leaves of the removed subtree; when
  the parent path does not resolve to a Split it fails: with
  \<open>'Node at path ... not found'\<close> when the parent path does not resolve, with
  \<open>'Parent is not a parent node'\<close> when it resolves to a Leaf. Scenario A: removing
  \<open>['first']\<close> from \<open>{row, 'a', 'b', 50}\<close> gives the leaf \<open>'b'\<close>.
\<close>

theorem createRemoveUpdate_collapse:
  "createRemoveUpdate rootOpt [] = Inl CannotRemoveRoot
   \<and> (p \<noteq> [] \<and> getNodeAtPath t (butlast p) = Some (Parent d a b pc) \<longrightarrow>
        createRemoveUpdate (Some t) p =
          Inr \<lparr>path = butlast p, spec = SetSpec (case last p of First \<Rightarrow> b | Second \<Rightarrow> a)\<rparr>
        \<and> (\<exists>t'. updateTree (Some t)
                   [\<lparr>path = butlast p,
                     spec = SetSpec (case last p of First \<Rightarrow> b | Second \<Rightarrow> a)\<rparr>] = Some t'
              \<and> getNodeAtPath t' (butlast p) = Some (case last p of First \<Rightarrow> b | Second \<Rightarrow> a)
              \<and> (\<forall>q. \<not> prefix (butlast p) q \<and> \<not> prefix q (butlast p) \<longrightarrow>
                     getNodeAtPath t' q = getNodeAtPath t q)
              \<and> mset (getLeaves (Some t)) =
                  mset (getLeaves (Some t'))
                  + mset (getLeaves (Some (case last p of First \<Rightarrow> a | Second \<Rightarrow> b)))))
   \<and> (p \<noteq> [] \<and> getNodeAtPath t (butlast p) = None \<longrightarrow>
        createRemoveUpdate (Some t) p = Inl (NodeNotFound (butlast p)))
   \<and> (p \<noteq> [] \<and> getNodeAtPath t (butlast p) = Some (Leaf k) \<longrightarrow>
        createRemoveUpdate (Some t) p = Inl ParentIsNotAParent)
   \<and> (\<exists>u. createRemoveUpdate (Some (Parent Row (Leaf ''a'') (Leaf ''b'') (Some 50))) [First] = Inr u
          \<and> updateTree (Some (Parent Row (Leaf ''a'') (Leaf ''b'') (Some 50))) [u]
              = Some (Leaf ''b''))"
proof (intro conjI impI)
  show "createRemoveUpdate rootOpt [] = Inl CannotRemoveRoot"
    by (cases rootOpt) (simp_all add: createRemoveUpdate_def)
next
  assume h: "p \<noteq> [] \<and> getNodeAtPath t (butlast p) = Some (Parent d a b pc)"
  let ?sib = "case last p of First \<Rightarrow> b | Second \<Rightarrow> a"
  let ?rem = "case last p of First \<Rightarrow> a | Second \<Rightarrow> b"
  from h have par: "getNodeAtPath t (butlast p) = Some (Parent d a b pc)" and ne: "p \<noteq> []"
    by simp_all
  show "createRemoveUpdate (Some t) p = Inr \<lparr>path = butlast p, spec = SetSpec ?sib\<rparr>"
    by (rule createRemoveUpdate_Parent [OF par ne])
  let ?t' = "setAt t (butlast p) ?sib"
  have 1: "updateTree (Some t) [\<lparr>path = butlast p, spec = SetSpec ?sib\<rparr>] = Some ?t'"
    by (simp add: updateTree_Some)
  have 2: "getNodeAtPath ?t' (butlast p) = Some ?sib"
    by (rule getNodeAtPath_setAt_same [OF par])
  have 3: "\<forall>q. \<not> prefix (butlast p) q \<and> \<not> prefix q (butlast p) \<longrightarrow>
                     getNodeAtPath ?t' q = getNodeAtPath t q"
    by (simp add: getNodeAtPath_setAt_other)
  have "mset (getLeaves (Some ?t')) + mset (getLeaves (Some (Parent d a b pc)))
          = mset (getLeaves (Some t)) + mset (getLeaves (Some ?sib))"
    by (rule leaves_setAt [OF par])
  then have 4: "mset (getLeaves (Some t)) = mset (getLeaves (Some ?t')) + mset (getLeaves (Some ?rem))"
    by (cases "last p") simp_all
  from 1 2 3 4
  show "\<exists>t'. updateTree (Some t) [\<lparr>path = butlast p, spec = SetSpec ?sib\<rparr>] = Some t'
              \<and> getNodeAtPath t' (butlast p) = Some ?sib
              \<and> (\<forall>q. \<not> prefix (butlast p) q \<and> \<not> prefix q (butlast p) \<longrightarrow>
                     getNodeAtPath t' q = getNodeAtPath t q)
              \<and> mset (getLeaves (Some t)) =
                  mset (getLeaves (Some t')) + mset (getLeaves (Some ?rem))"
    by blast
next
  assume "p \<noteq> [] \<and> getNodeAtPath t (butlast p) = None"
  then show "createRemoveUpdate (Some t) p = Inl (NodeNotFound (butlast p))"
    by (simp add: createRemoveUpdate_def getAndAssertNodeAtPathExists_def)
next
  assume "p \<noteq> [] \<and> getNodeAtPath t (butlast p) = Some (Leaf k)"
  then show "createRemoveUpdate (Some t) p = Inl ParentIsNotAParent"
    by (simp add: createRemoveUpdate_def getAndAssertNodeAtPathExists_def)
next
  show "\<exists>u. createRemoveUpdate (Some (Parent Row (Leaf ''a'') (Leaf ''b'') (Some 50))) [First] = Inr u
          \<and> updateTree (Some (Parent Row (Leaf ''a'') (Leaf ''b'') (Some 50))) [u]
              = Some (Leaf ''b'')"
    by (simp add: createRemoveUpdate_def getAndAssertNodeAtPathExists_def updateTree_def
        updateTree_step_def)
qed

theorem createRemoveUpdate_collapse_witness:
  "([First, First] \<noteq> []
    \<and> getNodeAtPath
         (Parent Row (Parent Column (Leaf ''a'') (Leaf ''b'') (Some 50)) (Leaf ''c'') (Some 50))
         (butlast [First, First]) = Some (Parent Column (Leaf ''a'') (Leaf ''b'') (Some 50)))
   \<and> createRemoveUpdate
        (Some (Parent Row (Parent Column (Leaf ''a'') (Leaf ''b'') (Some 50)) (Leaf ''c'') (Some 50)))
        [First, First]
       = Inr \<lparr>path = [First], spec = SetSpec (Leaf ''b'')\<rparr>
   \<and> ([First, First] \<noteq> [] \<and> getNodeAtPath (Leaf ''a'') (butlast [First, First]) = None)
   \<and> createRemoveUpdate (Some (Leaf ''a'')) [First, First] = Inl (NodeNotFound [First])
   \<and> ([First] \<noteq> [] \<and> getNodeAtPath (Leaf ''a'') (butlast [First]) = Some (Leaf ''a''))
   \<and> createRemoveUpdate (Some (Leaf ''a'')) [First] = Inl ParentIsNotAParent"
  using createRemoveUpdate_collapse
    [of None "[First, First]"
        "Parent Row (Parent Column (Leaf ''a'') (Leaf ''b'') (Some 50)) (Leaf ''c'') (Some 50)"
        Column "Leaf ''a''" "Leaf ''b''" "Some 50" "''a''"]
    createRemoveUpdate_collapse
    [of None "[First, First]" "Leaf ''a''" Row "Leaf ''a''" "Leaf ''a''" None "''a''"]
    createRemoveUpdate_collapse
    [of None "[First]" "Leaf ''a''" Row "Leaf ''a''" "Leaf ''a''" None "''a''"]
  by simp (elim conjE, intro conjI, assumption+)

section \<open>Geometry: properties\<close>




text \<open>A NaN percentage is not clamped: the two boundaries are then NaN.\<close>

lemma clamp_NaN: "Math_max (num 0) (Math_min (num 100) NaN) = NaN"
  by (simp add: Math_max_def Math_min_def)

section \<open>Drag relocation: properties\<close>

text \<open>
  C9: the batch is empty when the source path does not resolve, when the destination
  path does not resolve, or when the two paths are equal; applying the empty batch
  returns the tree itself.
\<close>

theorem createDragToUpdates_noop:
  "getNodeAtPath t src = None \<or> getNodeAtPath t dst = None \<or> src = dst
   \<Longrightarrow> createDragToUpdates t src dst pos = Inr [] \<and> updateTree (Some t) [] = Some t"
  by (auto simp: createDragToUpdates_def updateTree_def split: option.splits)

theorem createDragToUpdates_noop_witness:
  "(getNodeAtPath (Parent Row (Leaf ''a'') (Leaf ''b'') (Some 50)) [First, First] = None
    \<or> getNodeAtPath (Parent Row (Leaf ''a'') (Leaf ''b'') (Some 50)) [Second] = None
    \<or> [First, First] = [Second])
   \<and> createDragToUpdates (Parent Row (Leaf ''a'') (Leaf ''b'') (Some 50))
        [First, First] [Second] LEFT = Inr []
   \<and> ([First] = [First])
   \<and> createDragToUpdates (Parent Row (Leaf ''a'') (Leaf ''b'') (Some 50))
        [First] [First] TOP = Inr []"
  using createDragToUpdates_noop
    [of "Parent Row (Leaf ''a'') (Leaf ''b'') (Some 50)" "[First, First]" "[Second]" LEFT]
    createDragToUpdates_noop
    [of "Parent Row (Leaf ''a'') (Leaf ''b'') (Some 50)" "[First]" "[First]" TOP]
  by simp

text \<open>
  C2, scenario B on the code: for \<open>{row, 'a', {column, 'b', 'c', 50}, 40}\<close>, dragging
  \<open>['first']\<close> to the LEFT of \<open>['second','first']\<close> gives the batch
  [\<open>$set\<close> the sibling at the root, \<open>$set\<close> the joint node at the unrebased path
  \<open>['second','first']\<close>]; after the first update the tree is \<open>{column, 'b', 'c'}\<close>,
  where that path runs through the leaf \<open>'c'\<close>, so the second update is dropped and
  the result is \<open>{column, 'b', 'c', 50}\<close>: the dragged leaf \<open>'a'\<close> is gone.
\<close>

theorem scenario_B_actual:
  "createDragToUpdates
     (Parent Row (Leaf ''a'') (Parent Column (Leaf ''b'') (Leaf ''c'') (Some 50)) (Some 40))
     [First] [Second, First] LEFT
   = Inr [\<lparr>path = [], spec = SetSpec (Parent Column (Leaf ''b'') (Leaf ''c'') (Some 50))\<rparr>,
          \<lparr>path = [Second, First],
           spec = SetSpec (Parent Row (Leaf ''a'') (Leaf ''b'') (Some 50))\<rparr>]
   \<and> updateTree
       (Some (Parent Row (Leaf ''a'') (Parent Column (Leaf ''b'') (Leaf ''c'') (Some 50)) (Some 40)))
       [\<lparr>path = [], spec = SetSpec (Parent Column (Leaf ''b'') (Leaf ''c'') (Some 50))\<rparr>,
        \<lparr>path = [Second, First],
         spec = SetSpec (Parent Row (Leaf ''a'') (Leaf ''b'') (Some 50))\<rparr>]
     = Some (Parent Column (Leaf ''b'') (Leaf ''c'') (Some 50))
   \<and> Some (Parent Column (Leaf ''b'') (Leaf ''c'') (Some 50))
     \<noteq> Some (Parent Column (Parent Row (Leaf ''a'') (Leaf ''b'') (Some 50)) (Leaf ''c'') (Some 50))"
  by (simp add: createDragToUpdates_def createRemoveUpdate_def getAndAssertNodeAtPathExists_def
      every_def at_index_def updateTree_def updateTree_step_def)

text \<open>
  C3, as the code has it: when the source's parent path is not the root path and is
  a strict prefix of the destination path, and the destination path has at the index
  after that parent path the source's own branch, the batch is [the remove update of
  the source, \<open>$set\<close> of the joint node at the destination path with that one
  branch deleted]. The code asks \<open>sourceParentPath.length > 0\<close> before it rebases.
\<close>

theorem createDragToUpdates_rebase:
  assumes S: "getNodeAtPath t src = Some S" and D: "getNodeAtPath t dst = Some D"
    and neq: "src \<noteq> dst"
    and nonroot: "butlast src \<noteq> []"
    and sp: "strict_prefix (butlast src) dst"
    and br: "at_index dst (length (butlast src)) = at_index src (length (butlast src))"
  shows "\<exists>u. createRemoveUpdate (Some t) src = Inr u
           \<and> createDragToUpdates t src dst pos =
               Inr [u, \<lparr>path = butlast src @ drop (length (butlast src) + 1) dst,
                        spec = SetSpec (jointNode pos S D)\<rparr>]"
proof -
  from nonroot have ne: "src \<noteq> []" by auto
  from sp have len: "length (butlast src) < length dst"
    by (auto simp: strict_prefix_def prefix_def)
  then have "length src \<le> length dst" by simp
  then have nsp: "\<not> strict_prefix dst src"
    by (auto simp: strict_prefix_def prefix_def)
  have "butlast src \<noteq> butlast dst"
  proof
    assume eq: "butlast src = butlast dst"
    define bs where "bs = butlast src"
    from sp obtain zs where dst: "dst = bs @ zs" and "zs \<noteq> []"
      by (auto simp: strict_prefix_def prefix_def bs_def)
    then obtain z zs' where zs: "zs = z # zs'" by (cases zs) auto
    have src: "src = bs @ [last src]" using ne by (simp add: bs_def)
    from eq have "bs = butlast (bs @ z # zs')"
      using dst zs by (simp add: bs_def)
    then have "zs' = []"
      by (cases zs') (simp_all add: butlast_append)
    moreover have "at_index (bs @ z # zs') (length bs) = at_index (bs @ [last src]) (length bs)"
      using br dst zs src by (simp add: bs_def)
    then have "z = last src"
      by (simp add: at_index_append_length)
    ultimately have "dst = src" using dst zs src by simp
    with neq show False by simp
  qed
  with drag_standard [OF S D neq nsp ne, of pos] nonroot sp br
  obtain d a b pc where par: "getNodeAtPath t (butlast src) = Some (Parent d a b pc)"
    and batch: "createDragToUpdates t src dst pos =
             Inr [\<lparr>path = butlast src,
                   spec = SetSpec (case last src of First \<Rightarrow> b | Second \<Rightarrow> a)\<rparr>,
                  \<lparr>path = butlast src @ drop (length (butlast src) + 1) dst,
                   spec = SetSpec (jointNode pos S D)\<rparr>]"
    by auto
  from createRemoveUpdate_Parent [OF par ne] batch show ?thesis
    by simp
qed

text \<open>An input of the rebased form, with the batch the code returns there.\<close>

theorem createDragToUpdates_rebase_witness:
  "getNodeAtPath
     (Parent Row (Parent Column (Parent Row (Leaf ''a'') (Leaf ''b'') (Some 50)) (Leaf ''c'') (Some 50))
        (Leaf ''d'') (Some 50))
     [First, First] = Some (Parent Row (Leaf ''a'') (Leaf ''b'') (Some 50))
   \<and> getNodeAtPath
     (Parent Row (Parent Column (Parent Row (Leaf ''a'') (Leaf ''b'') (Some 50)) (Leaf ''c'') (Some 50))
        (Leaf ''d'') (Some 50))
     [First, First, Second] = Some (Leaf ''b'')
   \<and> [First, First] \<noteq> [First, First, Second]
   \<and> butlast [First, First] \<noteq> []
   \<and> strict_prefix (butlast [First, First]) [First, First, Second]
   \<and> at_index [First, First, Second] (length (butlast [First, First]))
       = at_index [First, First] (length (butlast [First, First]))
   \<and> createDragToUpdates
       (Parent Row (Parent Column (Parent Row (Leaf ''a'') (Leaf ''b'') (Some 50)) (Leaf ''c'') (Some 50))
          (Leaf ''d'') (Some 50))
       [First, First] [First, First, Second] TOP
     = Inr [\<lparr>path = [First], spec = SetSpec (Leaf ''c'')\<rparr>,
            \<lparr>path = [First, Second],
             spec = SetSpec (Parent Column (Parent Row (Leaf ''a'') (Leaf ''b'') (Some 50))
                               (Leaf ''b'') (Some 50))\<rparr>]"
proof -
  let ?t = "Parent Row
     (Parent Column (Parent Row (Leaf ''a'') (Leaf ''b'') (Some 50)) (Leaf ''c'') (Some 50))
     (Leaf ''d'') (Some 50)"
  have S: "getNodeAtPath ?t [First, First] = Some (Parent Row (Leaf ''a'') (Leaf ''b'') (Some 50))"
    by simp
  have D: "getNodeAtPath ?t [First, First, Second] = Some (Leaf ''b'')"
    by simp
  have neq: "[First, First] \<noteq> [First, First, Second]" by simp
  have nonroot: "butlast [First, First] \<noteq> []" by simp
  have sp: "strict_prefix (butlast [First, First]) [First, First, Second]" by simp
  have br: "at_index [First, First, Second] (length (butlast [First, First]))
       = at_index [First, First] (length (butlast [First, First]))"
    by (simp add: at_index_def)
  from createDragToUpdates_rebase [OF S D neq nonroot sp br, of TOP]
  have "createDragToUpdates ?t [First, First] [First, First, Second] TOP
     = Inr [\<lparr>path = [First], spec = SetSpec (Leaf ''c'')\<rparr>,
            \<lparr>path = [First, Second],
             spec = SetSpec (Parent Column (Parent Row (Leaf ''a'') (Leaf ''b'') (Some 50))
                               (Leaf ''b'') (Some 50))\<rparr>]"
    by (auto simp: createRemoveUpdate_def getAndAssertNodeAtPathExists_def jointNode_def)
  with S D neq nonroot sp br show ?thesis by blast
qed

text \<open>
  C3 as stated (any parent path) fails when the source is a child of the root: the
  second update keeps the destination path \<open>['second','first']\<close>, it is not rebased
  to \<open>['first']\<close>.
\<close>

theorem createDragToUpdates_rebase_root_parent_counterexample:
  "getNodeAtPath
     (Parent Row (Leaf ''a'') (Parent Column (Leaf ''b'') (Leaf ''c'') (Some 50)) (Some 50))
     [Second] = Some (Parent Column (Leaf ''b'') (Leaf ''c'') (Some 50))
   \<and> getNodeAtPath
     (Parent Row (Leaf ''a'') (Parent Column (Leaf ''b'') (Leaf ''c'') (Some 50)) (Some 50))
     [Second, First] = Some (Leaf ''b'')
   \<and> [Second] \<noteq> [Second, First]
   \<and> strict_prefix (butlast [Second]) [Second, First]
   \<and> at_index [Second, First] (length (butlast [Second]))
       = at_index [Second] (length (butlast [Second]))
   \<and> createRemoveUpdate
       (Some (Parent Row (Leaf ''a'') (Parent Column (Leaf ''b'') (Leaf ''c'') (Some 50)) (Some 50)))
       [Second] = Inr \<lparr>path = [], spec = SetSpec (Leaf ''a'')\<rparr>
   \<and> createDragToUpdates
       (Parent Row (Leaf ''a'') (Parent Column (Leaf ''b'') (Leaf ''c'') (Some 50)) (Some 50))
       [Second] [Second, First] LEFT
     = Inr [\<lparr>path = [], spec = SetSpec (Leaf ''a'')\<rparr>,
            \<lparr>path = [Second, First],
             spec = SetSpec (jointNode LEFT (Parent Column (Leaf ''b'') (Leaf ''c'') (Some 50))
                               (Leaf ''b''))\<rparr>]
   \<and> createDragToUpdates
       (Parent Row (Leaf ''a'') (Parent Column (Leaf ''b'') (Leaf ''c'') (Some 50)) (Some 50))
       [Second] [Second, First] LEFT
     \<noteq> Inr [\<lparr>path = [], spec = SetSpec (Leaf ''a'')\<rparr>,
            \<lparr>path = butlast [Second] @ drop (length (butlast [Second]) + 1) [Second, First],
             spec = SetSpec (jointNode LEFT (Parent Column (Leaf ''b'') (Leaf ''c'') (Some 50))
                               (Leaf ''b''))\<rparr>]"
  by (simp add: createDragToUpdates_def createRemoveUpdate_def getAndAssertNodeAtPathExists_def
      every_def at_index_def jointNode_def)

text \<open>
  C1, as the code has it. Source and destination both resolve, and either
  (1) the destination is a proper ancestor of the source, or
  (2) they are siblings, or
  (3) neither is on the other's side of the tree: the source's parent path is not a
  prefix of the destination path and the destination is not an ancestor of the source.
  Then the batch applies to a tree with the same leaves, each as often as before, and
  the tree has a new 50/50 split with the source on the requested side (\<open>jointNode\<close>):
  in (1) at the destination path, its other child being the destination subtree with
  the source removed from it; in (2) at the parent's path and in (3) at the destination
  path, its other child being the subtree originally at the destination.
  Nothing is said of a source that is an ancestor of the destination, nor of a
  destination strictly below the source's sibling.
\<close>

theorem createDragToUpdates_relocates:
  assumes S: "getNodeAtPath t src = Some S" and D: "getNodeAtPath t dst = Some D"
    and rel: "strict_prefix dst src
              \<or> (src \<noteq> [] \<and> dst \<noteq> [] \<and> src \<noteq> dst \<and> butlast src = butlast dst)
              \<or> (\<not> prefix (butlast src) dst \<and> \<not> prefix dst src)"
  shows "\<exists>us t'.
           createDragToUpdates t src dst pos = Inr us
         \<and> updateTree (Some t) us = Some t'
         \<and> mset (getLeaves (Some t')) = mset (getLeaves (Some t))
         \<and> (strict_prefix dst src \<longrightarrow>
              (\<exists>u D'. createRemoveUpdate (Some D) (drop (length dst) src) = Inr u
                     \<and> updateTree (Some D) [u] = Some D'
                     \<and> mset (getLeaves (Some D')) + mset (getLeaves (Some S))
                         = mset (getLeaves (Some D))
                     \<and> getNodeAtPath t' dst = Some (jointNode pos S D')))
         \<and> (\<not> strict_prefix dst src \<and> butlast src = butlast dst \<longrightarrow>
              getNodeAtPath t' (butlast src) = Some (jointNode pos S D))
         \<and> (\<not> strict_prefix dst src \<and> butlast src \<noteq> butlast dst \<longrightarrow>
              getNodeAtPath t' dst = Some (jointNode pos S D))"
proof -
  consider (ancestor) "strict_prefix dst src"
    | (siblings) "src \<noteq> []" "dst \<noteq> []" "src \<noteq> dst" "butlast src = butlast dst"
    | (disjoint) "\<not> prefix (butlast src) dst" "\<not> prefix dst src"
    using rel by blast
  then show ?thesis
  proof cases
    case ancestor
    let ?rel = "drop (length dst) src"
    from drag_dest_ancestor [OF S D ancestor, of pos]
    obtain d a b pc where par: "getNodeAtPath D (butlast ?rel) = Some (Parent d a b pc)"
      and Seq: "S = (case last src of First \<Rightarrow> a | Second \<Rightarrow> b)"
      and batch: "createDragToUpdates t src dst pos =
             Inr [\<lparr>path = dst,
                   spec = SetSpec (jointNode pos S
                     (setAt D (butlast ?rel) (case last src of First \<Rightarrow> b | Second \<Rightarrow> a)))\<rparr>]"
      by blast
    let ?sib = "case last src of First \<Rightarrow> b | Second \<Rightarrow> a"
    let ?D' = "setAt D (butlast ?rel) ?sib"
    let ?t' = "setAt t dst (jointNode pos S ?D')"
    from ancestor have len: "length dst < length src"
      by (auto simp: strict_prefix_def prefix_def)
    then have relne: "?rel \<noteq> []" and lastrel: "last ?rel = last src"
      by simp_all
    have rm: "createRemoveUpdate (Some D) ?rel = Inr \<lparr>path = butlast ?rel, spec = SetSpec ?sib\<rparr>"
      using createRemoveUpdate_Parent [OF par relne] lastrel by simp
    have upd: "updateTree (Some D) [\<lparr>path = butlast ?rel, spec = SetSpec ?sib\<rparr>] = Some ?D'"
      by (simp add: updateTree_Some)
    have lD: "mset (getLeaves (Some ?D')) + mset (getLeaves (Some S)) = mset (getLeaves (Some D))"
      using leaves_after_removal [OF par, of "last src"] Seq by simp
    have "mset (getLeaves (Some ?t')) + mset (getLeaves (Some D))
            = mset (getLeaves (Some t)) + mset (getLeaves (Some (jointNode pos S ?D')))"
      by (rule leaves_setAt [OF D])
    also have "\<dots> = mset (getLeaves (Some t)) + mset (getLeaves (Some D))"
      using lD by (simp add: leaves_jointNode add.commute)
    finally have lt: "mset (getLeaves (Some ?t')) = mset (getLeaves (Some t))"
      by simp
    have at: "getNodeAtPath ?t' dst = Some (jointNode pos S ?D')"
      by (rule getNodeAtPath_setAt_same [OF D])
    have res: "updateTree (Some t) [\<lparr>path = dst, spec = SetSpec (jointNode pos S ?D')\<rparr>] = Some ?t'"
      by (simp add: updateTree_Some)
    from batch res lt rm upd lD at ancestor show ?thesis
      by (intro exI [of _ "[\<lparr>path = dst, spec = SetSpec (jointNode pos S ?D')\<rparr>]"]
            exI [of _ ?t']) blast
  next
    case siblings
    have nsp: "\<not> strict_prefix dst src"
      using siblings
      by (metis append_butlast_last_id strict_prefix_def prefix_def append_eq_append_conv
            length_append_singleton length_butlast append_Nil2 butlast_append butlast_snoc)
    from drag_standard [OF S D siblings(3) nsp siblings(1), of pos] siblings(4)
    obtain d a b pc where par: "getNodeAtPath t (butlast src) = Some (Parent d a b pc)"
      and Seq: "S = (case last src of First \<Rightarrow> a | Second \<Rightarrow> b)"
      and batch: "createDragToUpdates t src dst pos =
             Inr [\<lparr>path = butlast src,
                   spec = SetSpec (case last src of First \<Rightarrow> b | Second \<Rightarrow> a)\<rparr>,
                  \<lparr>path = butlast src, spec = SetSpec (jointNode pos S D)\<rparr>]"
      by auto
    let ?sib = "case last src of First \<Rightarrow> b | Second \<Rightarrow> a"
    let ?t1 = "setAt t (butlast src) ?sib"
    let ?t' = "setAt ?t1 (butlast src) (jointNode pos S D)"
    have lastne: "last src \<noteq> last dst"
      using siblings by (metis append_butlast_last_id)
    have "getNodeAtPath t (butlast src @ [last dst]) = Some D"
      using D siblings by simp
    then have "getNodeAtPath (Parent d a b pc) [last dst] = Some D"
      using par by (simp add: getNodeAtPath_append)
    then have Deq: "D = ?sib"
      using lastne by (cases "last src"; cases "last dst") simp_all
    have l1: "mset (getLeaves (Some ?t1)) + mset (getLeaves (Some S)) = mset (getLeaves (Some t))"
      using leaves_after_removal [OF par, of "last src"] Seq by simp
    have at1: "getNodeAtPath ?t1 (butlast src) = Some D"
      using getNodeAtPath_setAt_same [OF par, of ?sib] Deq by simp
    have "mset (getLeaves (Some ?t')) + mset (getLeaves (Some D))
            = mset (getLeaves (Some ?t1)) + mset (getLeaves (Some (jointNode pos S D)))"
      by (rule leaves_setAt [OF at1])
    also have "\<dots> = mset (getLeaves (Some t)) + mset (getLeaves (Some D))"
      using l1 by (simp add: leaves_jointNode)
    finally have lt: "mset (getLeaves (Some ?t')) = mset (getLeaves (Some t))"
      by simp
    have at: "getNodeAtPath ?t' (butlast src) = Some (jointNode pos S D)"
      by (rule getNodeAtPath_setAt_same [OF at1])
    have res: "updateTree (Some t)
        [\<lparr>path = butlast src, spec = SetSpec ?sib\<rparr>,
         \<lparr>path = butlast src, spec = SetSpec (jointNode pos S D)\<rparr>] = Some ?t'"
      by (simp add: updateTree_Some)
    from batch res lt at nsp siblings(4) show ?thesis
      by (intro exI [of _ "[\<lparr>path = butlast src, spec = SetSpec ?sib\<rparr>,
         \<lparr>path = butlast src, spec = SetSpec (jointNode pos S D)\<rparr>]"] exI [of _ ?t']) blast
  next
    case disjoint
    from disjoint(1) have ne: "src \<noteq> []" by auto
    from disjoint(2) have neq: "src \<noteq> dst" by auto
    from disjoint(2) have nsp: "\<not> strict_prefix dst src" by (simp add: strict_prefix_def)
    have nsib: "butlast src \<noteq> butlast dst"
      using disjoint(1) by (metis prefixeq_butlast)
    have npar: "\<not> strict_prefix (butlast src) dst"
      using disjoint(1) by (simp add: strict_prefix_def)
    from drag_standard [OF S D neq nsp ne, of pos] nsib npar
    obtain d a b pc where par: "getNodeAtPath t (butlast src) = Some (Parent d a b pc)"
      and Seq: "S = (case last src of First \<Rightarrow> a | Second \<Rightarrow> b)"
      and batch: "createDragToUpdates t src dst pos =
             Inr [\<lparr>path = butlast src,
                   spec = SetSpec (case last src of First \<Rightarrow> b | Second \<Rightarrow> a)\<rparr>,
                  \<lparr>path = dst, spec = SetSpec (jointNode pos S D)\<rparr>]"
      by auto
    let ?sib = "case last src of First \<Rightarrow> b | Second \<Rightarrow> a"
    let ?t1 = "setAt t (butlast src) ?sib"
    let ?t' = "setAt ?t1 dst (jointNode pos S D)"
    have l1: "mset (getLeaves (Some ?t1)) + mset (getLeaves (Some S)) = mset (getLeaves (Some t))"
      using leaves_after_removal [OF par, of "last src"] Seq by simp
    have "\<not> prefix dst (butlast src)"
      using disjoint(2) by (meson prefix_order.trans prefixeq_butlast)
    with disjoint(1) have at1: "getNodeAtPath ?t1 dst = Some D"
      using D by (simp add: getNodeAtPath_setAt_other)
    have "mset (getLeaves (Some ?t')) + mset (getLeaves (Some D))
            = mset (getLeaves (Some ?t1)) + mset (getLeaves (Some (jointNode pos S D)))"
      by (rule leaves_setAt [OF at1])
    also have "\<dots> = mset (getLeaves (Some t)) + mset (getLeaves (Some D))"
      using l1 by (simp add: leaves_jointNode)
    finally have lt: "mset (getLeaves (Some ?t')) = mset (getLeaves (Some t))"
      by simp
    have at: "getNodeAtPath ?t' dst = Some (jointNode pos S D)"
      by (rule getNodeAtPath_setAt_same [OF at1])
    have res: "updateTree (Some t)
        [\<lparr>path = butlast src, spec = SetSpec ?sib\<rparr>,
         \<lparr>path = dst, spec = SetSpec (jointNode pos S D)\<rparr>] = Some ?t'"
      by (simp add: updateTree_Some)
    from batch res lt at nsp nsib show ?thesis
      by (intro exI [of _ "[\<lparr>path = butlast src, spec = SetSpec ?sib\<rparr>,
         \<lparr>path = dst, spec = SetSpec (jointNode pos S D)\<rparr>]"] exI [of _ ?t']) blast
  qed
qed

text \<open>One input for each of the three cases.\<close>

theorem createDragToUpdates_relocates_witness:
  "(getNodeAtPath
      (Parent Row (Parent Column (Leaf ''a'') (Leaf ''b'') (Some 50))
         (Parent Column (Leaf ''c'') (Leaf ''d'') (Some 50)) (Some 50))
      [First, First] = Some (Leaf ''a'')
    \<and> getNodeAtPath
      (Parent Row (Parent Column (Leaf ''a'') (Leaf ''b'') (Some 50))
         (Parent Column (Leaf ''c'') (Leaf ''d'') (Some 50)) (Some 50))
      [Second, Second] = Some (Leaf ''d'')
    \<and> \<not> prefix (butlast [First, First]) [Second, Second]
    \<and> \<not> prefix [Second, Second] [First, First])
   \<and> (\<exists>us t'.
         createDragToUpdates
           (Parent Row (Parent Column (Leaf ''a'') (Leaf ''b'') (Some 50))
              (Parent Column (Leaf ''c'') (Leaf ''d'') (Some 50)) (Some 50))
           [First, First] [Second, Second] LEFT = Inr us
       \<and> updateTree
           (Some (Parent Row (Parent Column (Leaf ''a'') (Leaf ''b'') (Some 50))
              (Parent Column (Leaf ''c'') (Leaf ''d'') (Some 50)) (Some 50))) us = Some t'
       \<and> mset (getLeaves (Some t')) = mset [''a'', ''b'', ''c'', ''d'']
       \<and> getNodeAtPath t' [Second, Second] = Some (Parent Row (Leaf ''a'') (Leaf ''d'') (Some 50)))
   \<and> (getNodeAtPath
        (Parent Row (Parent Column (Leaf ''a'') (Leaf ''b'') (Some 50)) (Leaf ''c'') (Some 50))
        [First, First] = Some (Leaf ''a'')
      \<and> getNodeAtPath
        (Parent Row (Parent Column (Leaf ''a'') (Leaf ''b'') (Some 50)) (Leaf ''c'') (Some 50))
        [First, Second] = Some (Leaf ''b'')
      \<and> [First, First] \<noteq> [] \<and> [First, Second] \<noteq> [] \<and> [First, First] \<noteq> [First, Second]
      \<and> butlast [First, First] = butlast [First, Second])
   \<and> (\<exists>us t'.
         createDragToUpdates
           (Parent Row (Parent Column (Leaf ''a'') (Leaf ''b'') (Some 50)) (Leaf ''c'') (Some 50))
           [First, First] [First, Second] RIGHT = Inr us
       \<and> updateTree
           (Some (Parent Row (Parent Column (Leaf ''a'') (Leaf ''b'') (Some 50)) (Leaf ''c'')
              (Some 50))) us = Some t'
       \<and> mset (getLeaves (Some t')) = mset [''a'', ''b'', ''c'']
       \<and> getNodeAtPath t' [First] = Some (Parent Row (Leaf ''b'') (Leaf ''a'') (Some 50)))
   \<and> (getNodeAtPath
        (Parent Row (Leaf ''a'') (Parent Column (Leaf ''b'') (Leaf ''c'') (Some 50)) (Some 40))
        [Second, First] = Some (Leaf ''b'')
      \<and> getNodeAtPath
        (Parent Row (Leaf ''a'') (Parent Column (Leaf ''b'') (Leaf ''c'') (Some 50)) (Some 40))
        [Second] = Some (Parent Column (Leaf ''b'') (Leaf ''c'') (Some 50))
      \<and> strict_prefix [Second] [Second, First])
   \<and> (\<exists>us t'.
         createDragToUpdates
           (Parent Row (Leaf ''a'') (Parent Column (Leaf ''b'') (Leaf ''c'') (Some 50)) (Some 40))
           [Second, First] [Second] TOP = Inr us
       \<and> updateTree
           (Some (Parent Row (Leaf ''a'') (Parent Column (Leaf ''b'') (Leaf ''c'') (Some 50))
              (Some 40))) us = Some t'
       \<and> mset (getLeaves (Some t')) = mset [''a'', ''b'', ''c''])"
proof -
  let ?t1 = "Parent Row (Parent Column (Leaf ''a'') (Leaf ''b'') (Some 50))
         (Parent Column (Leaf ''c'') (Leaf ''d'') (Some 50)) (Some 50)"
  let ?t2 = "Parent Row (Parent Column (Leaf ''a'') (Leaf ''b'') (Some 50)) (Leaf ''c'') (Some 50)"
  let ?t3 = "Parent Row (Leaf ''a'') (Parent Column (Leaf ''b'') (Leaf ''c'') (Some 50)) (Some 40)"
  have S1: "getNodeAtPath ?t1 [First, First] = Some (Leaf ''a'')" by simp
  have D1: "getNodeAtPath ?t1 [Second, Second] = Some (Leaf ''d'')" by simp
  have r1: "\<not> prefix (butlast [First, First]) [Second, Second]
            \<and> \<not> prefix [Second, Second] [First, First]" by simp
  then have rel1: "strict_prefix [Second, Second] [First, First]
      \<or> ([First, First] \<noteq> [] \<and> [Second, Second] \<noteq> [] \<and> [First, First] \<noteq> [Second, Second]
          \<and> butlast [First, First] = butlast [Second, Second])
      \<or> (\<not> prefix (butlast [First, First]) [Second, Second]
          \<and> \<not> prefix [Second, Second] [First, First])" by blast
  have c1: "\<exists>us t'. createDragToUpdates ?t1 [First, First] [Second, Second] LEFT = Inr us
       \<and> updateTree (Some ?t1) us = Some t'
       \<and> mset (getLeaves (Some t')) = mset [''a'', ''b'', ''c'', ''d'']
       \<and> getNodeAtPath t' [Second, Second] = Some (Parent Row (Leaf ''a'') (Leaf ''d'') (Some 50))"
    using createDragToUpdates_relocates [OF S1 D1 rel1, of LEFT]
    by (simp add: jointNode_def)
  have S2: "getNodeAtPath ?t2 [First, First] = Some (Leaf ''a'')" by simp
  have D2: "getNodeAtPath ?t2 [First, Second] = Some (Leaf ''b'')" by simp
  have r2: "[First, First] \<noteq> [] \<and> [First, Second] \<noteq> [] \<and> [First, First] \<noteq> [First, Second]
          \<and> butlast [First, First] = butlast [First, Second]" by simp
  then have rel2: "strict_prefix [First, Second] [First, First]
      \<or> ([First, First] \<noteq> [] \<and> [First, Second] \<noteq> [] \<and> [First, First] \<noteq> [First, Second]
          \<and> butlast [First, First] = butlast [First, Second])
      \<or> (\<not> prefix (butlast [First, First]) [First, Second]
          \<and> \<not> prefix [First, Second] [First, First])" by blast
  have c2: "\<exists>us t'. createDragToUpdates ?t2 [First, First] [First, Second] RIGHT = Inr us
       \<and> updateTree (Some ?t2) us = Some t'
       \<and> mset (getLeaves (Some t')) = mset [''a'', ''b'', ''c'']
       \<and> getNodeAtPath t' [First] = Some (Parent Row (Leaf ''b'') (Leaf ''a'') (Some 50))"
    using createDragToUpdates_relocates [OF S2 D2 rel2, of RIGHT]
    by (simp add: jointNode_def)
  have S3: "getNodeAtPath ?t3 [Second, First] = Some (Leaf ''b'')" by simp
  have D3: "getNodeAtPath ?t3 [Second] = Some (Parent Column (Leaf ''b'') (Leaf ''c'') (Some 50))"
    by simp
  have r3: "strict_prefix [Second] [Second, First]" by simp
  then have rel3: "strict_prefix [Second] [Second, First]
      \<or> ([Second, First] \<noteq> [] \<and> [Second] \<noteq> [] \<and> [Second, First] \<noteq> [Second]
          \<and> butlast [Second, First] = butlast [Second])
      \<or> (\<not> prefix (butlast [Second, First]) [Second]
          \<and> \<not> prefix [Second] [Second, First])" by blast
  have c3: "\<exists>us t'. createDragToUpdates ?t3 [Second, First] [Second] TOP = Inr us
       \<and> updateTree (Some ?t3) us = Some t'
       \<and> mset (getLeaves (Some t')) = mset [''a'', ''b'', ''c'']"
    using createDragToUpdates_relocates [OF S3 D3 rel3, of TOP]
    by simp blast
  from S1 D1 r1 c1 S2 D2 r2 c2 S3 D3 r3 c3 show ?thesis
    by (intro conjI) blast+
qed

text \<open>
  C1 as stated (any two distinct resolving paths) fails when the source is an ancestor
  of the destination: dragging \<open>['second']\<close> onto its own child \<open>['second','first']\<close>
  leaves the single leaf \<open>'a'\<close>; the leaves \<open>'b'\<close> and \<open>'c'\<close> are lost.
\<close>

theorem createDragToUpdates_source_ancestor_counterexample:
  "getNodeAtPath
     (Parent Row (Leaf ''a'') (Parent Column (Leaf ''b'') (Leaf ''c'') (Some 50)) (Some 50))
     [Second] = Some (Parent Column (Leaf ''b'') (Leaf ''c'') (Some 50))
   \<and> getNodeAtPath
     (Parent Row (Leaf ''a'') (Parent Column (Leaf ''b'') (Leaf ''c'') (Some 50)) (Some 50))
     [Second, First] = Some (Leaf ''b'')
   \<and> [Second] \<noteq> [Second, First]
   \<and> createDragToUpdates
       (Parent Row (Leaf ''a'') (Parent Column (Leaf ''b'') (Leaf ''c'') (Some 50)) (Some 50))
       [Second] [Second, First] LEFT
     = Inr [\<lparr>path = [], spec = SetSpec (Leaf ''a'')\<rparr>,
            \<lparr>path = [Second, First],
             spec = SetSpec (Parent Row (Parent Column (Leaf ''b'') (Leaf ''c'') (Some 50))
                               (Leaf ''b'') (Some 50))\<rparr>]
   \<and> updateTree
       (Some (Parent Row (Leaf ''a'') (Parent Column (Leaf ''b'') (Leaf ''c'') (Some 50)) (Some 50)))
       [\<lparr>path = [], spec = SetSpec (Leaf ''a'')\<rparr>,
        \<lparr>path = [Second, First],
         spec = SetSpec (Parent Row (Parent Column (Leaf ''b'') (Leaf ''c'') (Some 50))
                           (Leaf ''b'') (Some 50))\<rparr>]
     = Some (Leaf ''a'')
   \<and> getLeaves
       (Some (Parent Row (Leaf ''a'') (Parent Column (Leaf ''b'') (Leaf ''c'') (Some 50)) (Some 50)))
     = [''a'', ''b'', ''c'']
   \<and> getLeaves (Some (Leaf ''a'')) = [''a'']"
  by (simp add: createDragToUpdates_def createRemoveUpdate_def getAndAssertNodeAtPathExists_def
      every_def at_index_def updateTree_def updateTree_step_def)

text \<open>
  When the destination is an ancestor of the source, the other child of the new split
  is the destination with the source removed (\<open>'c'\<close> here), not the subtree
  originally at the destination.
\<close>

lemma drag_into_ancestor_example:
  "createDragToUpdates
     (Parent Row (Leaf ''a'') (Parent Column (Leaf ''b'') (Leaf ''c'') (Some 50)) (Some 40))
     [Second, First] [Second] LEFT
   = Inr [\<lparr>path = [Second], spec = SetSpec (Parent Row (Leaf ''b'') (Leaf ''c'') (Some 50))\<rparr>]
   \<and> updateTree
       (Some (Parent Row (Leaf ''a'') (Parent Column (Leaf ''b'') (Leaf ''c'') (Some 50)) (Some 40)))
       [\<lparr>path = [Second], spec = SetSpec (Parent Row (Leaf ''b'') (Leaf ''c'') (Some 50))\<rparr>]
     = Some (Parent Row (Leaf ''a'') (Parent Row (Leaf ''b'') (Leaf ''c'') (Some 50)) (Some 40))"
  by (simp add: createDragToUpdates_def createRemoveUpdate_def getAndAssertNodeAtPathExists_def
      every_def at_index_def updateTree_def updateTree_step_def)

section \<open>Balanced tree builder and node count\<close>

text \<open>
  C7: for every list of leaves (duplicates allowed) and every start direction, the
  leaves of the balanced tree are the list itself, in order; the empty list gives
  \<open>null\<close> and a one-element list gives that leaf with no Split around it.
\<close>

theorem createBalancedTreeFromLeaves_roundtrip:
  "getLeaves (createBalancedTreeFromLeaves L d) = L
   \<and> createBalancedTreeFromLeaves [] d = None
   \<and> createBalancedTreeFromLeaves [x] d = Some (Leaf x)"
proof -
  have round: "getLeaves (createBalancedTreeFromLeaves L d) = L"
  proof (induction L d rule: createBalancedTreeFromLeaves.induct)
    case (1 leaves startDirection)
    let ?mid = "length leaves div 2"
    let ?o = "getOtherDirection startDirection"
    show ?case
    proof (cases "length leaves = 0 \<or> length leaves = 1")
      case True
      then show ?thesis
        by (subst createBalancedTreeFromLeaves.simps, cases leaves) auto
    next
      case False
      then have ne: "length leaves \<noteq> 0" "length leaves \<noteq> 1" by auto
      then have mid: "0 < ?mid" "?mid < length leaves" by arith+
      have f: "getLeaves (createBalancedTreeFromLeaves (take ?mid leaves) ?o) = take ?mid leaves"
        using "1.IH"(1) [OF ne] .
      have "length (take ?mid leaves) = ?mid"
        using mid by simp
      with mid have "take ?mid leaves \<noteq> []" by auto
      with f obtain a where a: "createBalancedTreeFromLeaves (take ?mid leaves) ?o = Some a"
        by (cases "createBalancedTreeFromLeaves (take ?mid leaves) ?o") auto
      have s: "getLeaves (createBalancedTreeFromLeaves (drop ?mid leaves) ?o) = drop ?mid leaves"
        using "1.IH"(3) [OF ne a] .
      have "length (drop ?mid leaves) = length leaves - ?mid"
        by simp
      with mid have "drop ?mid leaves \<noteq> []" by auto
      with s obtain b where b: "createBalancedTreeFromLeaves (drop ?mid leaves) ?o = Some b"
        by (cases "createBalancedTreeFromLeaves (drop ?mid leaves) ?o") auto
      have "createBalancedTreeFromLeaves leaves startDirection
              = Some (Parent startDirection a b (Some 50))"
        using ne a b by (subst createBalancedTreeFromLeaves.simps) simp
      then have "getLeaves (createBalancedTreeFromLeaves leaves startDirection)
              = getLeaves (Some a) @ getLeaves (Some b)"
        by simp
      also have "\<dots> = take ?mid leaves @ drop ?mid leaves"
        using f s a b by simp
      finally show ?thesis by simp
    qed
  qed
  moreover have "createBalancedTreeFromLeaves [] d = None"
    by (subst createBalancedTreeFromLeaves.simps) simp
  moreover have "createBalancedTreeFromLeaves [x] d = Some (Leaf x)"
    by (subst createBalancedTreeFromLeaves.simps) simp
  ultimately show ?thesis by blast
qed

text \<open>
  C10: a non-null tree has \<open>2 * (number of leaves) - 1\<close> nodes, hence an odd number;
  for the null tree the node count and the leaf count are both 0.
\<close>

theorem countNodes_leaves:
  "countNodes (Some t) = 2 * int (length (getLeaves (Some t))) - 1
   \<and> odd (countNodes (Some t))
   \<and> countNodes (None :: 'a MosaicNode option) = 0
   \<and> length (getLeaves (None :: 'a MosaicNode option)) = 0"
proof -
  have "countNodes (Some t) = 2 * int (length (getLeaves (Some t))) - 1"
    by (induction t) auto
  then show ?thesis by simp
qed

end
